theory Spec2Isabelle
  imports Main "HOL-Library.Multiset" "HOL-Library.Word"
begin

section \<open>Go values, errors and outcomes\<close>

text \<open>
  Errors are values. The constructors follow the error factories the sources call
  (\<open>cerr.NewConfigError\<close>, \<open>cerr.NewInvalidStateError\<close>, \<open>cerr.NewConnectionError\<close>
  with its optional \<open>WithCause\<close>), each carrying its code; \<open>DriverError\<close> stands for an
  error reported by the database driver or another library.
\<close>

datatype error =
    DriverError string
  | ConfigError string
  | InvalidStateError string
  | ConnectionError string "error option"

text \<open>
  A value of Go's \<open>interface{}\<close>, as far as the sources look at it: its dynamic kind
  (type assertions and \<open>reflect\<close> kinds) and its content. A keyed value lists its
  entries; for a struct the list is the declaration order of its fields, for a map it
  only enumerates the entries, each key once. \<open>GMap\<close> is a \<open>map[string]interface{}\<close>,
  \<open>GOtherMap\<close> a map of any other type, \<open>GPtr\<close> a pointer to a value (\<open>GPtr GNil\<close>
  the nil pointer).
\<close>

datatype gval =
    GNil
  | GBool bool
  | GInt int
  | GStr string
  | GStrSlice "string list"
  | GSlice "gval list"
  | GArray "gval list"
  | GMap "(string \<times> gval) list"
  | GOtherMap "(string \<times> gval) list"
  | GStruct "(string \<times> gval) list"
  | GPtr gval

text \<open>A call either panics (with the panic's message) or returns.\<close>

datatype 'a outcome = Panic string | Returned 'a

section \<open>Identifier quoting\<close>

text \<open>
  \<open>QuoteIdentifier\<close> has the same text in both revisions of the engine:
  the empty string is returned as it is, a string whose first byte is the
  single quote (\<open>'\''\<close> in the source, byte 0x27) is returned as it is, and every other
  string is wrapped in double quotes.
\<close>

definition QuoteIdentifier :: "string \<Rightarrow> string" where
  "QuoteIdentifier value =
     (case value of
        [] \<Rightarrow> value
      | c # _ \<Rightarrow> if c = CHR 0x27 then value else ''\"'' @ value @ ''\"'')"

section \<open>Number formatting\<close>

text \<open>
  \<open>strconv.FormatInt(i, base)\<close>: the digits of \<open>i\<close> in the given base, lower-case
  letters for the digits from ten on, a leading minus sign for a negative number. The
  sources call it with the literal bases 16 and 10 only.
\<close>

definition digit_char :: "nat \<Rightarrow> char" where
  "digit_char d = ''0123456789abcdefghijklmnopqrstuvwxyz'' ! d"

function format_nat :: "nat \<Rightarrow> nat \<Rightarrow> string" where
  "format_nat base n =
     (if base < 2 \<or> n < base then [digit_char n]
      else format_nat base (n div base) @ [digit_char (n mod base)])"
  by pat_completeness auto
termination
  by (relation "measure (\<lambda>(base, n). n)") auto

definition FormatInt :: "int \<Rightarrow> nat \<Rightarrow> string" where
  "FormatInt i base =
     (if i < 0 then CHR ''-'' # format_nat base (nat (- i)) else format_nat base (nat i))"

section \<open>The SQL fragment builder (engine with the JSON round trip)\<close>

text \<open>
  \<open>convertToMap\<close> sends the value through \<open>json.Marshal\<close> and \<open>json.Unmarshal\<close> into a
  fresh \<open>map[string]interface{}\<close> and returns nil when either step fails. The JSON
  library is not part of the repository; it is modelled by its effect on the kind of the
  value: a keyed value (a struct, a map, a pointer to one of them) gives its entries,
  taken in their decoded form; the nil value gives the nil map (JSON \<open>null\<close>), and every
  other value fails to decode into a map. Both nil results are \<open>None\<close>.
\<close>

fun convertToMap :: "gval \<Rightarrow> (string \<times> gval) list option" where
  "convertToMap (GMap kvs) = Some kvs"
| "convertToMap (GOtherMap kvs) = Some kvs"
| "convertToMap (GStruct fs) = Some fs"
| "convertToMap (GPtr v) = convertToMap v"
| "convertToMap _ = None"

text \<open>
  Indexing a Go map: a missing key reads as the zero value, the nil interface value.
\<close>

definition map_index :: "(string \<times> gval) list \<Rightarrow> string \<Rightarrow> gval" where
  "map_index items k = (case map_of items k of None \<Rightarrow> GNil | Some v \<Rightarrow> v)"

text \<open>
  A \<open>range\<close> over a Go map visits the entries in an order the runtime chooses anew
  for every loop. Each function that ranges over a map therefore takes the order of its
  loop as an argument \<open>ord\<close>, which rearranges the entries; the theorems ask of it only
  that it is a rearrangement.
\<close>

type_synonym range_order = "(string \<times> gval) list \<Rightarrow> (string \<times> gval) list"

text \<open>The loop of \<open>GenerateColumns\<close>, with the \<open>strings.Builder\<close> as accumulator.\<close>

fun columns_loop :: "string \<Rightarrow> string list \<Rightarrow> string" where
  "columns_loop result [] = result"
| "columns_loop result (item # rest) =
     columns_loop ((if result \<noteq> [] then result @ '','' else result) @ QuoteIdentifier item) rest"


text \<open>
  The counting loop \<open>for index := 1; index <= n; index++\<close> shared by both branches
  of \<open>GenerateParameters\<close>; every index is written with \<open>FormatInt(index, 16)\<close>.
\<close>

function params_loop :: "int \<Rightarrow> int \<Rightarrow> string \<Rightarrow> string" where
  "params_loop index n result =
     (if index \<le> n
      then params_loop (index + 1) n
             ((if result \<noteq> [] then result @ '','' else result) @ ''$'' @ FormatInt index 16)
      else result)"
  by pat_completeness auto
termination
  by (relation "measure (\<lambda>(index, n, result). nat (n + 1 - index))") auto

definition GenerateParameters :: "gval \<Rightarrow> string" where
  "GenerateParameters values =
     (case values of
        GSlice val \<Rightarrow> params_loop 1 (int (length val)) []
      | _ \<Rightarrow> (case convertToMap values of
                None \<Rightarrow> []
              | Some items \<Rightarrow> params_loop 1 (int (length items)) []))"

text \<open>
  The loop of \<open>GenerateSetParameters\<close>: the SET clause, the column list and the running
  index, again written with \<open>FormatInt(index, 16)\<close>.
\<close>

fun set_loop :: "string \<Rightarrow> string \<Rightarrow> int \<Rightarrow> string list \<Rightarrow> string \<times> string" where
  "set_loop result col index [] = (result, col)"
| "set_loop result col index (column # rest) =
     set_loop
       ((if result \<noteq> [] then result @ '','' else result)
          @ QuoteIdentifier column @ ''=$'' @ FormatInt index 16)
       ((if result \<noteq> [] then col @ '','' else col) @ QuoteIdentifier column)
       (index + 1) rest"

definition GenerateSetParameters :: "range_order \<Rightarrow> gval \<Rightarrow> string \<times> string" where
  "GenerateSetParameters ord values =
     (case convertToMap values of
        None \<Rightarrow> ([], [])
      | Some items \<Rightarrow> set_loop [] [] 1 (map fst (ord items)))"




section \<open>The SQL fragment builder (engine with reflection)\<close>

text \<open>
  The other revision of the engine inspects the record with type assertions and
  \<open>reflect\<close>, and panics on the kinds it does not accept; its functions carry the
  suffix \<open>_refl\<close> where both revisions define the name. \<open>reflect.TypeOf\<close> of the nil
  interface value is nil, so asking for its kind is a nil dereference; \<open>NumField\<close> panics
  on a value that is not a struct. Struct fields are taken to be exported.
\<close>

definition struct_fields :: "gval \<Rightarrow> (string \<times> gval) list outcome" where
  "struct_fields values =
     (case values of
        GStruct fs \<Rightarrow> Returned fs
      | GPtr (GStruct fs) \<Rightarrow> Returned fs
      | _ \<Rightarrow> Panic ''reflect: call of reflect.Value.NumField on a value that is not a struct'')"

definition GenerateColumns_refl :: "range_order \<Rightarrow> gval \<Rightarrow> string outcome" where
  "GenerateColumns_refl ord values =
     (case values of
        GStrSlice val \<Rightarrow> Returned (columns_loop [] val)
      | GNil \<Rightarrow> Panic ''invalid memory address or nil pointer dereference''
      | GArray _ \<Rightarrow> Panic ''Values must be string array''
      | GMap val \<Rightarrow> Returned (columns_loop [] (map fst (ord val)))
      | GOtherMap _ \<Rightarrow> Panic ''Values must be map[string]interface{}''
      | _ \<Rightarrow> (case struct_fields values of
                Panic msg \<Rightarrow> Panic msg
              | Returned fs \<Rightarrow> Returned (columns_loop [] (map fst fs))))"

definition generateParamString :: "int \<Rightarrow> string" where
  "generateParamString paramNum = params_loop 1 paramNum []"

definition GenerateParameters_refl :: "gval \<Rightarrow> string outcome" where
  "GenerateParameters_refl values =
     (case values of
        GSlice val \<Rightarrow> Returned (generateParamString (int (length val)))
      | GNil \<Rightarrow> Panic ''invalid memory address or nil pointer dereference''
      | GArray _ \<Rightarrow> Panic ''Values must be string array''
      | GMap val \<Rightarrow> Returned (generateParamString (int (length val)))
      | GOtherMap _ \<Rightarrow> Panic ''Values must be map[string]interface{}''
      | _ \<Rightarrow> (case struct_fields values of
                Panic msg \<Rightarrow> Panic msg
              | Returned fs \<Rightarrow> Returned (generateParamString (int (length fs)))))"

text \<open>
  The three loops of this \<open>GenerateSetParameters\<close> (string slice, map, struct fields)
  have one shape: the running index starts at 1 and is written with
  \<open>FormatInt(index, 16)\<close>.
\<close>

fun set_loop_refl :: "string \<Rightarrow> int \<Rightarrow> string list \<Rightarrow> string" where
  "set_loop_refl result index [] = result"
| "set_loop_refl result index (column # rest) =
     set_loop_refl
       ((if result \<noteq> [] then result @ '','' else result)
          @ QuoteIdentifier column @ ''=$'' @ FormatInt index 16)
       (index + 1) rest"

definition GenerateSetParameters_refl :: "range_order \<Rightarrow> gval \<Rightarrow> string outcome" where
  "GenerateSetParameters_refl ord values =
     (case values of
        GStrSlice val \<Rightarrow> Returned (set_loop_refl [] 1 val)
      | GNil \<Rightarrow> Panic ''invalid memory address or nil pointer dereference''
      | GArray _ \<Rightarrow> Panic ''Values must be string array''
      | GMap val \<Rightarrow> Returned (set_loop_refl [] 1 (map fst (ord val)))
      | GOtherMap _ \<Rightarrow> Panic ''Values must be map[string]interface{}''
      | _ \<Rightarrow> (case struct_fields values of
                Panic msg \<Rightarrow> Panic msg
              | Returned fs \<Rightarrow> Returned (set_loop_refl [] 1 (map fst fs))))"

text \<open>
  This \<open>GenerateValues\<close> takes no column string: for a map it ranges over the map once
  more, in the order \<open>ord\<close> of that second loop; for a struct it reads the fields by
  index.
\<close>

definition GenerateValues_refl :: "range_order \<Rightarrow> gval \<Rightarrow> gval list outcome" where
  "GenerateValues_refl ord values =
     (case values of
        GMap val \<Rightarrow> Returned (map snd (ord val))
      | GNil \<Rightarrow> Panic ''invalid memory address or nil pointer dereference''
      | GOtherMap _ \<Rightarrow> Panic ''Values must be map[string]interface{}''
      | _ \<Rightarrow> (case struct_fields values of
                Panic msg \<Rightarrow> Panic msg
              | Returned fs \<Rightarrow> Returned (map snd fs)))"

section \<open>The database driver and the connection component\<close>

text \<open>
  The result of a query is a cursor: \<open>Next\<close> moves to the next row, \<open>Values\<close> reads
  the row or fails, \<open>Err\<close> reports the error of the iteration. \<open>Rows rs e\<close> lists for
  each row what \<open>Values\<close> returns there (\<open>Inl\<close> its error) and gives the result \<open>e\<close> of
  \<open>Err\<close>. The pool handle is the function that runs a query text with its
  parameters; the driver returns a cursor whenever it returns no error. The field
  \<open>Client\<close> can be nil, and so can the handle the connection component hands out.
\<close>

datatype rows = Rows "(error + gval list) list" "error option"

type_synonym pool = "string \<Rightarrow> gval list \<Rightarrow> error + rows"

text \<open>
  The connection component is not part of these files. Its state is what the engine
  asks of it (\<open>IsOpen\<close>, \<open>GetConnection\<close>, \<open>GetDatabaseName\<close>); what its \<open>Open\<close> and
  \<open>Close\<close> do, and the connection that \<open>createConnection\<close> builds, are given from
  outside.
\<close>

record PostgresConnection =
  IsOpen_conn :: bool
  GetConnection :: "pool option"
  GetDatabaseName :: string

record collaborators =
  createConnection :: PostgresConnection
  Open_conn :: "PostgresConnection \<Rightarrow> error option \<times> PostgresConnection"
  Close_conn :: "PostgresConnection \<Rightarrow> error option \<times> PostgresConnection"

section \<open>The persistence engine: state, configuration, lifecycle\<close>

text \<open>
  A configuration maps a key to the string stored under it, \<open>None\<close> for a missing key.
  The accessors are those of the commons library: \<open>SetDefaults\<close> fills in the keys the
  configuration lacks; \<open>GetAsStringWithDefault\<close> returns the stored string, and the
  default when the key is missing or its string is empty. The defaults of the engine
  give \<open>collection\<close> the value nil, which is stored as the empty string.
\<close>

type_synonym ConfigParams = "string \<rightharpoonup> string"

definition SetDefaults :: "ConfigParams \<Rightarrow> ConfigParams \<Rightarrow> ConfigParams" where
  "SetDefaults config defaults = defaults ++ config"

definition GetAsStringWithDefault :: "ConfigParams \<Rightarrow> string \<Rightarrow> string \<Rightarrow> string" where
  "GetAsStringWithDefault config key defaultValue =
     (case config key of
        None \<Rightarrow> defaultValue
      | Some v \<Rightarrow> if v = [] then defaultValue else v)"

definition GetAsIntegerWithDefault ::
  "(string \<Rightarrow> int option) \<Rightarrow> ConfigParams \<Rightarrow> string \<Rightarrow> int \<Rightarrow> int" where
  "GetAsIntegerWithDefault toInteger config key defaultValue =
     (case config key of
        None \<Rightarrow> defaultValue
      | Some v \<Rightarrow> (case toInteger v of None \<Rightarrow> defaultValue | Some n \<Rightarrow> n))"

definition defaultConfig :: ConfigParams where
  "defaultConfig = map_of
     [(''collection'', []),
      (''dependencies.connection'', ''*:connection:postgres:*:1.0''),
      (''options.max_pool_size'', ''2''),
      (''options.keep_alive'', ''1''),
      (''options.connect_timeout'', ''5000''),
      (''options.auto_reconnect'', ''true''),
      (''options.max_page_size'', ''100''),
      (''options.debug'', ''true'')]"

text \<open>
  The fields of \<open>PostgresPersistence\<close> the modelled operations read or write. The three
  conversion hooks are function fields of the struct; \<open>ConvertToPublic\<close> receives the
  cursor at its current row, that is, what \<open>Values\<close> returns there. \<open>Prototype\<close> stands
  for the decoding of a row into an object of the prototype type, which the revision
  with reflection does in \<open>ConvertFromRows\<close>.
\<close>

record PostgresPersistence =
  config :: "ConfigParams option"
  opened :: bool
  localConnection :: bool
  autoObjects :: "string list"
  ConvertFromPublic :: "gval \<Rightarrow> gval"
  ConvertToPublic :: "error + gval list \<Rightarrow> gval"
  ConvertFromPublicPartial :: "gval \<Rightarrow> gval"
  Connection :: "PostgresConnection option"
  Client :: "pool option"
  DatabaseName :: string
  TableName :: string
  MaxPageSize :: int
  Prototype :: "gval list \<Rightarrow> gval"

definition NewPostgresPersistence ::
  "(error + gval list \<Rightarrow> gval) \<Rightarrow> (gval list \<Rightarrow> gval) \<Rightarrow> string \<Rightarrow> PostgresPersistence" where
  "NewPostgresPersistence toPublic proto tableName =
     \<lparr> config = None, opened = False, localConnection = False, autoObjects = [],
       ConvertFromPublic = (\<lambda>value. value), ConvertToPublic = toPublic,
       ConvertFromPublicPartial = (\<lambda>value. value),
       Connection = None, Client = None, DatabaseName = [], TableName = tableName,
       MaxPageSize = 100, Prototype = proto \<rparr>"

text \<open>
  \<open>Configure\<close>: the two assignments to \<open>TableName\<close> follow each other, first
  \<open>collection\<close>, then \<open>table\<close>, each with the current table name as its default.
  The conversion of a configuration value to an integer is the library's and is given
  from outside; the configuration of the dependency resolver and the logger have no
  part in the modelled operations.
\<close>

definition Configure ::
  "(string \<Rightarrow> int option) \<Rightarrow> PostgresPersistence \<Rightarrow> ConfigParams \<Rightarrow> PostgresPersistence" where
  "Configure toInteger c config0 =
     (let config1 = SetDefaults config0 defaultConfig;
          c1 = c\<lparr>config := Some config1\<rparr>;
          c2 = c1\<lparr>TableName := GetAsStringWithDefault config1 ''collection'' (TableName c1)\<rparr>;
          c3 = c2\<lparr>TableName := GetAsStringWithDefault config1 ''table'' (TableName c2)\<rparr>
      in c3\<lparr>MaxPageSize :=
              GetAsIntegerWithDefault toInteger config1 ''options.max_page_size'' (MaxPageSize c3)\<rparr>)"

definition IsOpen :: "PostgresPersistence \<Rightarrow> bool" where
  "IsOpen c = opened c"

text \<open>
  \<open>AutoCreateObjects\<close> returns its error; the second component lists the statements
  it has sent to the database, whose own errors are only logged.
\<close>

definition AutoCreateObjects :: "PostgresPersistence \<Rightarrow> (error option \<times> string list) outcome" where
  "AutoCreateObjects c =
     (if autoObjects c = [] then Returned (None, [])
      else case Client c of
        None \<Rightarrow> Panic ''invalid memory address or nil pointer dereference''
      | Some query \<Rightarrow>
          (case query (''SELECT to_regclass('' @ [CHR 0x27] @ TableName c @ [CHR 0x27] @ '')'') [] of
             Inl qErr \<Rightarrow> Returned (Some qErr, [])
           | Inr (Rows rs rerr) \<Rightarrow>
               (case rs of
                  [] \<Rightarrow> Returned (rerr, autoObjects c)
                | Inl cErr # _ \<Rightarrow> Returned (Some cErr, [])
                | Inr val # _ \<Rightarrow>
                    (case val of
                       [] \<Rightarrow> Returned (rerr, autoObjects c)
                     | v # _ \<Rightarrow> if v = GStr (TableName c) then Returned (None, [])
                                else Returned (rerr, autoObjects c)))))"

definition Open ::
  "collaborators \<Rightarrow> PostgresPersistence \<Rightarrow> (PostgresPersistence \<times> error option) outcome" where
  "Open ext c =
     (if opened c then Returned (c, None)
      else
        let c1 = (if Connection c = None
                  then c\<lparr>Connection := Some (createConnection ext), localConnection := True\<rparr>
                  else c)
        in case Connection c1 of
             None \<Rightarrow> Panic ''invalid memory address or nil pointer dereference''
           | Some conn \<Rightarrow>
               let (err1, conn1) = (if localConnection c1 then Open_conn ext conn else (None, conn));
                   c2 = c1\<lparr>Connection := Some conn1\<rparr>;
                   err2 = (if err1 = None \<and> Connection c2 = None
                           then Some (InvalidStateError ''NO_CONNECTION'') else err1);
                   err3 = (if err2 = None \<and> \<not> IsOpen_conn conn1
                           then Some (ConnectionError ''CONNECT_FAILED'' None) else err2);
                   c3 = c2\<lparr>opened := False\<rparr>
               in if err3 \<noteq> None then Returned (c3, err3)
                  else
                    let c4 = c3\<lparr>Client := GetConnection conn1,
                                 DatabaseName := GetDatabaseName conn1\<rparr>
                    in case AutoCreateObjects c4 of
                         Panic msg \<Rightarrow> Panic msg
                       | Returned (err, sent) \<Rightarrow>
                           if err \<noteq> None
                           then Returned (c4\<lparr>Client := None\<rparr>,
                                          Some (ConnectionError ''CONNECT_FAILED'' err))
                           else Returned (c4\<lparr>opened := True\<rparr>, None))"

definition Close ::
  "collaborators \<Rightarrow> PostgresPersistence \<Rightarrow> PostgresPersistence \<times> error option" where
  "Close ext c =
     (if \<not> opened c then (c, None)
      else case Connection c of
        None \<Rightarrow> (c, Some (InvalidStateError ''NO_CONNECTION''))
      | Some conn \<Rightarrow>
          let (err, conn1) = (if localConnection c then Close_conn ext conn else (None, conn));
              c1 = c\<lparr>Connection := Some conn1\<rparr>
          in if err \<noteq> None then (c1, err)
             else (c1\<lparr>opened := False, Client := None\<rparr>, None))"

section \<open>The persistence engine: reading and creating\<close>

text \<open>
  What the libraries outside the repository compute is given from outside:
  \<open>LongConverter.ToLong\<close>, the number \<open>rand.Int63n\<close> draws for a positive bound, and
  the object helpers \<open>CloneObject\<close>, \<open>GenerateObjectId\<close> and \<open>GetObjectId\<close> of the data
  library. \<open>rand.Int63n\<close> itself panics when its bound is not positive.
\<close>

record library =
  ToLong :: "gval \<Rightarrow> int"
  Int63n_draw :: "int \<Rightarrow> int"
  CloneObject :: "gval \<Rightarrow> gval"
  GenerateObjectId :: "gval \<Rightarrow> gval"
  GetObjectId :: "gval \<Rightarrow> gval"

definition Int63n :: "library \<Rightarrow> int \<Rightarrow> int outcome" where
  "Int63n lib n = (if n \<le> 0 then Panic ''invalid argument to Int63n'' else Returned (Int63n_draw lib n))"

text \<open>
  Paging parameters and the data page of the commons library. \<open>GetSkip\<close> and \<open>GetTake\<close>
  bound the optional values: \<open>take\<close> is the given maximum when it is unset, \<open>skip\<close> the
  given minimum when it is unset or below it.
\<close>

record PagingParams =
  Skip :: "int option"
  Take :: "int option"
  Total :: bool

definition NewEmptyPagingParams :: PagingParams where
  "NewEmptyPagingParams = \<lparr> Skip = None, Take = None, Total = False \<rparr>"

definition GetSkip :: "PagingParams \<Rightarrow> int \<Rightarrow> int" where
  "GetSkip p minSkip =
     (case Skip p of None \<Rightarrow> minSkip | Some s \<Rightarrow> if s < minSkip then minSkip else s)"

definition GetTake :: "PagingParams \<Rightarrow> int \<Rightarrow> int" where
  "GetTake p maxTake =
     (case Take p of
        None \<Rightarrow> maxTake
      | Some t \<Rightarrow> if t < 0 then 0 else if t > maxTake then maxTake else t)"

record DataPage =
  page_Total :: "int option"
  page_Data :: "gval list"

text \<open>
  The test \<open>if s, ok := v.(string); ok && s != ""\<close> that guards every optional clause:
  the non-empty string an interface value holds, if it holds one.
\<close>

definition nonempty_string :: "gval \<Rightarrow> string option" where
  "nonempty_string v = (case v of GStr s \<Rightarrow> if s \<noteq> [] then Some s else None | _ \<Rightarrow> None)"

text \<open>
  The two statements of \<open>GetPageByFilter\<close>, as the function builds them. The text is
  the same in both revisions of the engine. In the counting statement the outer test
  reads \<open>filter\<close> and the type assertion reads \<open>sel\<close>.
\<close>

definition page_query ::
  "PostgresPersistence \<Rightarrow> gval \<Rightarrow> PagingParams \<Rightarrow> gval \<Rightarrow> gval \<Rightarrow> string" where
  "page_query c filter' paging sort' sel =
     (let query0 = (case (if sel \<noteq> GNil then nonempty_string sel else None) of
                      Some slct \<Rightarrow> ''SELECT '' @ slct @ '' FROM '' @ QuoteIdentifier (TableName c)
                    | None \<Rightarrow> ''SELECT * FROM '' @ QuoteIdentifier (TableName c));
          skip = GetSkip paging (- 1);
          take = GetTake paging (MaxPageSize c);
          query1 = (case (if filter' \<noteq> GNil then nonempty_string filter' else None) of
                      Some flt \<Rightarrow> query0 @ '' WHERE '' @ flt
                    | None \<Rightarrow> query0);
          query2 = (case (if sort' \<noteq> GNil then nonempty_string sort' else None) of
                      Some srt \<Rightarrow> query1 @ '' ORDER BY '' @ srt
                    | None \<Rightarrow> query1);
          query3 = (if skip \<ge> 0 then query2 @ '' OFFSET '' @ FormatInt skip 10 else query2)
      in query3 @ '' LIMIT '' @ FormatInt take 10)"

definition page_count_query :: "PostgresPersistence \<Rightarrow> gval \<Rightarrow> gval \<Rightarrow> string" where
  "page_count_query c filter' sel =
     (let query = ''SELECT COUNT(*) AS count FROM '' @ QuoteIdentifier (TableName c)
      in case (if filter' \<noteq> GNil then nonempty_string sel else None) of
           Some flt \<Rightarrow> query @ '' WHERE '' @ flt
         | None \<Rightarrow> query)"

text \<open>The count a one-column row holds; \<open>Values\<close> errors are dropped by the sources.\<close>

definition first_row_count :: "library \<Rightarrow> (error + gval list) list \<Rightarrow> int" where
  "first_row_count lib rs =
     (case rs of
        Inr [v] # _ \<Rightarrow> ToLong lib v
      | _ \<Rightarrow> 0)"

definition GetPageByFilter ::
  "library \<Rightarrow> PostgresPersistence \<Rightarrow> gval \<Rightarrow> PagingParams option \<Rightarrow> gval \<Rightarrow> gval
     \<Rightarrow> (DataPage option \<times> error option) outcome" where
  "GetPageByFilter lib c filter' paging0 sort' sel =
     (let paging = (case paging0 of None \<Rightarrow> NewEmptyPagingParams | Some p \<Rightarrow> p);
          pagingEnabled = Total paging
      in case Client c of
           None \<Rightarrow> Panic ''invalid memory address or nil pointer dereference''
         | Some run \<Rightarrow>
             (case run (page_query c filter' paging sort' sel) [] of
                Inl qErr \<Rightarrow> Returned (None, Some qErr)
              | Inr (Rows rs rerr) \<Rightarrow>
                  let items = map (ConvertToPublic c) rs
                  in if pagingEnabled
                     then (case run (page_count_query c filter' sel) [] of
                             Inl qErr2 \<Rightarrow> Returned (None, Some qErr2)
                           | Inr (Rows rs2 rerr2) \<Rightarrow>
                               Returned (Some \<lparr> page_Total = Some (first_row_count lib rs2),
                                                page_Data = items \<rparr>, rerr2))
                     else Returned (Some \<lparr> page_Total = Some 0, page_Data = items \<rparr>, rerr)))"

text \<open>
  The revision with reflection decodes every row whose \<open>Values\<close> succeed with
  \<open>ConvertFromRows\<close>, skips the others, and always returns a nil error with the page.
\<close>

definition ConvertFromRows :: "PostgresPersistence \<Rightarrow> gval list \<Rightarrow> gval" where
  "ConvertFromRows c rs = Prototype c rs"

fun decode_rows :: "PostgresPersistence \<Rightarrow> (error + gval list) list \<Rightarrow> gval list" where
  "decode_rows c [] = []"
| "decode_rows c (Inl vErr # rest) = decode_rows c rest"
| "decode_rows c (Inr vals # rest) = ConvertFromRows c vals # decode_rows c rest"

definition GetPageByFilter_refl ::
  "library \<Rightarrow> PostgresPersistence \<Rightarrow> gval \<Rightarrow> PagingParams option \<Rightarrow> gval \<Rightarrow> gval
     \<Rightarrow> (DataPage option \<times> error option) outcome" where
  "GetPageByFilter_refl lib c filter' paging0 sort' sel =
     (let paging = (case paging0 of None \<Rightarrow> NewEmptyPagingParams | Some p \<Rightarrow> p);
          pagingEnabled = Total paging
      in case Client c of
           None \<Rightarrow> Panic ''invalid memory address or nil pointer dereference''
         | Some run \<Rightarrow>
             (case run (page_query c filter' paging sort' sel) [] of
                Inl qErr \<Rightarrow> Returned (None, Some qErr)
              | Inr (Rows rs rerr) \<Rightarrow>
                  let items = decode_rows c rs
                  in if pagingEnabled
                     then (case run (page_count_query c filter' sel) [] of
                             Inl qErr2 \<Rightarrow> Returned (None, Some qErr2)
                           | Inr (Rows rs2 rerr2) \<Rightarrow>
                               Returned (Some \<lparr> page_Total = Some (first_row_count lib rs2),
                                                page_Data = items \<rparr>, None))
                     else Returned (Some \<lparr> page_Total = Some 0, page_Data = items \<rparr>, None)))"

text \<open>
  \<open>GetOneRandom\<close>. Both revisions read the count only from a one-column row whose
  value is a \<open>map[string]interface{}\<close>, under its key \<open>count\<close>; in every other case the
  count stays 0. Both then call \<open>rand.Int63n(count)\<close> without looking at the count.
\<close>

definition random_count_query :: "PostgresPersistence \<Rightarrow> gval \<Rightarrow> string" where
  "random_count_query c filter' =
     (let query = ''SELECT COUNT(*) AS count FROM '' @ QuoteIdentifier (TableName c)
      in case (if filter' \<noteq> GNil then nonempty_string filter' else None) of
           Some flt \<Rightarrow> query @ '' WHERE '' @ flt
         | None \<Rightarrow> query)"

definition random_select_query :: "PostgresPersistence \<Rightarrow> gval \<Rightarrow> string" where
  "random_select_query c filter' =
     (let query = ''SELECT * FROM '' @ QuoteIdentifier (TableName c)
      in case (if filter' \<noteq> GNil then nonempty_string filter' else None) of
           Some flt \<Rightarrow> query @ '' WHERE '' @ flt
         | None \<Rightarrow> query)"

definition random_count :: "library \<Rightarrow> error + gval list \<Rightarrow> int" where
  "random_count lib r =
     (case r of
        Inr [GMap row] \<Rightarrow> ToLong lib (map_index row ''count'')
      | _ \<Rightarrow> 0)"

definition GetOneRandom ::
  "library \<Rightarrow> PostgresPersistence \<Rightarrow> gval \<Rightarrow> (gval \<times> error option) outcome" where
  "GetOneRandom lib c filter' =
     (case Client c of
        None \<Rightarrow> Panic ''invalid memory address or nil pointer dereference''
      | Some run \<Rightarrow>
          (case run (random_count_query c filter') [] of
             Inl qErr \<Rightarrow> Returned (GNil, Some qErr)
           | Inr (Rows rs rerr) \<Rightarrow>
               (case rs of
                  [] \<Rightarrow> Returned (GNil, rerr)
                | r # _ \<Rightarrow>
                    (case Int63n lib (random_count lib r) of
                       Panic msg \<Rightarrow> Panic msg
                     | Returned pos \<Rightarrow>
                         (case run (random_select_query c filter'
                                      @ '' OFFSET '' @ FormatInt pos 10 @ '' LIMIT 1'') [] of
                            Inl qErr2 \<Rightarrow> Returned (GNil, None)
                          | Inr (Rows rs2 rerr2) \<Rightarrow>
                              (case rs2 of
                                 [] \<Rightarrow> Returned (GNil, rerr2)
                               | r2 # _ \<Rightarrow> Returned (ConvertToPublic c r2, None)))))))"

definition GetOneRandom_refl ::
  "library \<Rightarrow> PostgresPersistence \<Rightarrow> gval \<Rightarrow> (gval \<times> error option) outcome" where
  "GetOneRandom_refl lib c filter' =
     (case Client c of
        None \<Rightarrow> Panic ''invalid memory address or nil pointer dereference''
      | Some run \<Rightarrow>
          (case run (random_count_query c filter') [] of
             Inl qErr \<Rightarrow> Returned (GNil, Some qErr)
           | Inr (Rows rs rerr) \<Rightarrow>
               let count = (case rs of [] \<Rightarrow> 0 | r # _ \<Rightarrow> random_count lib r)
               in case Int63n lib count of
                    Panic msg \<Rightarrow> Panic msg
                  | Returned pos \<Rightarrow>
                      (case run (random_select_query c filter'
                                   @ '' OFFSET '' @ FormatInt pos 10 @ '' LIMIT 1'') [] of
                         Inl qErr2 \<Rightarrow> Returned (GNil, Some qErr2)
                       | Inr (Rows rs2 rerr2) \<Rightarrow>
                           (case rs2 of
                              [] \<Rightarrow> Returned (GNil, None)
                            | Inl vErr # _ \<Rightarrow> Returned (GNil, Some vErr)
                            | Inr vals # _ \<Rightarrow> Returned (ConvertFromRows c vals, None)))))"


text \<open>
  \<open>Create\<close> of the engine with reflection: columns and values come from two separate
  passes over the row, with the orders \<open>ordc\<close> and \<open>ordv\<close> of their loops.
\<close>

definition Create_refl ::
  "range_order \<Rightarrow> range_order \<Rightarrow> PostgresPersistence \<Rightarrow> gval \<Rightarrow> (gval \<times> error option) outcome" where
  "Create_refl ordc ordv c item =
     (if item = GNil then Returned (GNil, None)
      else
        let row = item
        in case GenerateColumns_refl ordc row of
             Panic msg \<Rightarrow> Panic msg
           | Returned columns \<Rightarrow>
         (case GenerateParameters_refl row of
             Panic msg \<Rightarrow> Panic msg
           | Returned params \<Rightarrow>
         (case GenerateValues_refl ordv row of
             Panic msg \<Rightarrow> Panic msg
           | Returned values \<Rightarrow>
               let query = ''INSERT INTO '' @ QuoteIdentifier (TableName c)
                             @ '' ('' @ columns @ '') VALUES ('' @ params @ '') RETURNING *''
               in case Client c of
                    None \<Rightarrow> Panic ''invalid memory address or nil pointer dereference''
                  | Some run \<Rightarrow>
                      (case run query values of
                         Inl qErr \<Rightarrow> Returned (GNil, Some qErr)
                       | Inr (Rows rs rerr) \<Rightarrow>
                           (case rs of
                              [] \<Rightarrow> Returned (GNil, None)
                            | Inl vErr # _ \<Rightarrow> Returned (GNil, Some vErr)
                            | Inr vals # _ \<Rightarrow> Returned (ConvertFromRows c vals, None))))))"

section \<open>The engine for records with an id\<close>

text \<open>
  \<open>IdentifiablePostgresPersistence\<close> embeds the engine with reflection, whose
  \<open>ConvertFromPublic\<close> is the identity; its methods carry the prefix
  \<open>Identifiable\<close>. Its operations return an item slot of type
  \<open>interface{}\<close> and an error; the slot holds a record value (\<open>Item GNil\<close> for nil) or,
  since any value fits an \<open>interface{}\<close>, an error value.
\<close>

datatype slot = Item gval | ErrorValue error

record range_orders =
  columns_order :: range_order
  set_order :: range_order
  values_order :: range_order

definition Identifiable_GetOneById ::
  "PostgresPersistence \<Rightarrow> gval \<Rightarrow> (slot \<times> error option) outcome" where
  "Identifiable_GetOneById c id' =
     (let query = ''SELECT * FROM '' @ QuoteIdentifier (TableName c) @ '' WHERE \"Id\"=$1''
      in case Client c of
           None \<Rightarrow> Panic ''invalid memory address or nil pointer dereference''
         | Some run \<Rightarrow>
             (case run query [id'] of
                Inl qErr \<Rightarrow> Returned (Item GNil, Some qErr)
              | Inr (Rows rs rerr) \<Rightarrow>
                  (case rs of
                     [] \<Rightarrow> Returned (Item GNil, None)
                   | Inl vErr # _ \<Rightarrow> Returned (Item GNil, Some vErr)
                   | Inr vals # _ \<Rightarrow>
                       if vals \<noteq> [] then Returned (Item (ConvertFromRows c vals), None)
                       else Returned (Item GNil, None))))"

definition Identifiable_Create ::
  "library \<Rightarrow> range_orders \<Rightarrow> PostgresPersistence \<Rightarrow> gval \<Rightarrow> (slot \<times> error option) outcome" where
  "Identifiable_Create lib ro c item =
     (if item = GNil then Returned (Item GNil, None)
      else
        let newItem = GenerateObjectId lib (CloneObject lib item)
        in case Create_refl (columns_order ro) (values_order ro) c newItem of
             Panic msg \<Rightarrow> Panic msg
           | Returned (result, err) \<Rightarrow> Returned (Item result, err))"

definition Identifiable_Set ::
  "library \<Rightarrow> range_orders \<Rightarrow> PostgresPersistence \<Rightarrow> gval \<Rightarrow> (slot \<times> error option) outcome" where
  "Identifiable_Set lib ro c item =
     (if item = GNil then Returned (Item GNil, None)
      else
        let newItem = GenerateObjectId lib (CloneObject lib item);
            row = item
        in case GenerateColumns_refl (columns_order ro) row of
             Panic msg \<Rightarrow> Panic msg
           | Returned columns \<Rightarrow>
         (case GenerateParameters_refl row of
             Panic msg \<Rightarrow> Panic msg
           | Returned params \<Rightarrow>
         (case GenerateSetParameters_refl (set_order ro) row of
             Panic msg \<Rightarrow> Panic msg
           | Returned setParams \<Rightarrow>
         (case GenerateValues_refl (values_order ro) row of
             Panic msg \<Rightarrow> Panic msg
           | Returned values \<Rightarrow>
               let query = ''INSERT INTO '' @ QuoteIdentifier (TableName c) @ '' ('' @ columns @ '')''
                             @ '' VALUES ('' @ params @ '')''
                             @ '' ON CONFLICT (\"Id\") DO UPDATE SET '' @ setParams @ '' RETURNING *''
               in case Client c of
                    None \<Rightarrow> Panic ''invalid memory address or nil pointer dereference''
                  | Some run \<Rightarrow>
                      (case run query values of
                         Inl qErr \<Rightarrow> Returned (Item GNil, Some qErr)
                       | Inr (Rows rs rerr) \<Rightarrow>
                           (case rs of
                              [] \<Rightarrow> Returned (Item GNil, None)
                            | Inl vErr # _ \<Rightarrow> Returned (Item GNil, Some vErr)
                            | Inr vals # _ \<Rightarrow>
                                if vals \<noteq> [] then Returned (Item (ConvertFromRows c vals), None)
                                else Returned (Item GNil, None)))))))"

text \<open>
  \<open>Update\<close>, \<open>UpdatePartially\<close> and \<open>DeleteById\<close> end their row branch with
  \<open>return vErr, nil\<close>: the error of \<open>Values\<close> goes into the item slot.
\<close>

definition update_query :: "PostgresPersistence \<Rightarrow> string \<Rightarrow> gval list \<Rightarrow> string" where
  "update_query c params values =
     ''UPDATE '' @ QuoteIdentifier (TableName c) @ '' SET '' @ params
       @ '' WHERE \"Id\"=$'' @ FormatInt (int (length values)) 16 @ '' RETURNING *''"

definition row_or_error_in_slot ::
  "PostgresPersistence \<Rightarrow> rows \<Rightarrow> (slot \<times> error option) outcome" where
  "row_or_error_in_slot c qResult =
     (case qResult of Rows rs rerr \<Rightarrow>
        (case rs of
           [] \<Rightarrow> Returned (Item GNil, None)
         | Inl vErr # _ \<Rightarrow> Returned (ErrorValue vErr, None)
         | Inr vals # _ \<Rightarrow>
             if vals \<noteq> [] then Returned (Item (ConvertFromRows c vals), None)
             else Returned (Item GNil, None)))"

definition Identifiable_Update ::
  "library \<Rightarrow> range_orders \<Rightarrow> PostgresPersistence \<Rightarrow> gval \<Rightarrow> (slot \<times> error option) outcome" where
  "Identifiable_Update lib ro c item =
     (if item = GNil then Returned (Item GNil, None)
      else
        let newItem = CloneObject lib item;
            id' = GetObjectId lib newItem;
            row = newItem
        in case GenerateSetParameters_refl (set_order ro) row of
             Panic msg \<Rightarrow> Panic msg
           | Returned params \<Rightarrow>
         (case GenerateValues_refl (values_order ro) row of
             Panic msg \<Rightarrow> Panic msg
           | Returned values0 \<Rightarrow>
               let values = values0 @ [id']
               in case Client c of
                    None \<Rightarrow> Panic ''invalid memory address or nil pointer dereference''
                  | Some run \<Rightarrow>
                      (case run (update_query c params values) values of
                         Inl qErr \<Rightarrow> Returned (Item GNil, Some qErr)
                       | Inr qResult \<Rightarrow> row_or_error_in_slot c qResult)))"

text \<open>
  \<open>UpdatePartially\<close> receives its partial data as a pointer to an \<open>AnyValueMap\<close>
  (\<open>None\<close> the nil pointer) and reads it with \<open>data.Value()\<close>, a field access through
  the pointer; the guard tests the id alone.
\<close>

definition Identifiable_UpdatePartially ::
  "range_orders \<Rightarrow> PostgresPersistence \<Rightarrow> gval \<Rightarrow> (string \<times> gval) list option
     \<Rightarrow> (slot \<times> error option) outcome" where
  "Identifiable_UpdatePartially ro c id' data =
     (if id' = GNil then Returned (Item GNil, None)
      else case data of
        None \<Rightarrow> Panic ''invalid memory address or nil pointer dereference''
      | Some val \<Rightarrow>
          let row = GMap val
          in case GenerateSetParameters_refl (set_order ro) row of
               Panic msg \<Rightarrow> Panic msg
             | Returned params \<Rightarrow>
           (case GenerateValues_refl (values_order ro) row of
               Panic msg \<Rightarrow> Panic msg
             | Returned values0 \<Rightarrow>
                 let values = values0 @ [id']
                 in case Client c of
                      None \<Rightarrow> Panic ''invalid memory address or nil pointer dereference''
                    | Some run \<Rightarrow>
                        (case run (update_query c params values) values of
                           Inl qErr \<Rightarrow> Returned (Item GNil, Some qErr)
                         | Inr qResult \<Rightarrow> row_or_error_in_slot c qResult)))"

definition Identifiable_DeleteById ::
  "PostgresPersistence \<Rightarrow> gval \<Rightarrow> (slot \<times> error option) outcome" where
  "Identifiable_DeleteById c id' =
     (let query = ''DELETE FROM '' @ QuoteIdentifier (TableName c) @ '' WHERE \"Id\"=$1 RETURNING *''
      in case Client c of
           None \<Rightarrow> Panic ''invalid memory address or nil pointer dereference''
         | Some run \<Rightarrow>
             (case run query [id'] of
                Inl qErr \<Rightarrow> Returned (Item GNil, Some qErr)
              | Inr qResult \<Rightarrow> row_or_error_in_slot c qResult))"

definition delete_by_ids_query :: "PostgresPersistence \<Rightarrow> string \<Rightarrow> string" where
  "delete_by_ids_query c params =
     ''DELETE FROM '' @ QuoteIdentifier (TableName c) @ '' WHERE \"Id\" IN('' @ params @ '')''"

definition Identifiable_DeleteByIds ::
  "PostgresPersistence \<Rightarrow> gval list \<Rightarrow> error option outcome" where
  "Identifiable_DeleteByIds c ids =
     (case GenerateParameters_refl (GSlice ids) of
        Panic msg \<Rightarrow> Panic msg
      | Returned params \<Rightarrow>
          (case Client c of
             None \<Rightarrow> Panic ''invalid memory address or nil pointer dereference''
           | Some run \<Rightarrow>
               (case run (delete_by_ids_query c params) ids of
                  Inl qErr \<Rightarrow> Returned (Some qErr)
                | Inr (Rows rs rerr) \<Rightarrow>
                    (case rs of
                       [] \<Rightarrow> Returned None
                     | Inl vErr # _ \<Rightarrow> Returned (Some vErr)
                     | Inr vals # _ \<Rightarrow> Returned None))))"

section \<open>The connection resolver\<close>

text \<open>
  A connection entry as its accessors present it: \<open>Uri()\<close>, \<open>Host()\<close>, \<open>Port()\<close>, and
  its parameter \<open>database\<close>, \<open>None\<close> when the entry has none.
  \<open>GetAsNullableString("database")\<close> returns a pointer to a string (\<open>None\<close> the nil
  pointer); in the commons library the repository builds with, it points to the string
  stored under the key, a missing key reading as the empty string, and is never nil.
  The credential has \<open>Username()\<close> and \<open>Password()\<close>. The driver's \<open>ParseConfig\<close> and the
  outcomes of the two lookups (\<open>ResolveAll\<close>, \<open>Lookup\<close>) are given from outside.
\<close>

record ConnectionParams =
  Uri :: string
  Host :: string
  Port :: int
  database :: "string option"

record CredentialParams =
  Username :: string
  Password :: string

record ConnConfig =
  cfg_Host :: string
  cfg_Port :: "16 word"
  cfg_Database :: string
  cfg_User :: string
  cfg_Password :: string

definition GetAsNullableString_database :: "ConnectionParams \<Rightarrow> string option" where
  "GetAsNullableString_database connection =
     Some (case database connection of None \<Rightarrow> [] | Some v \<Rightarrow> v)"

text \<open>
  \<open>validateConnection\<close> dereferences that pointer without a nil test;
  \<open>composeConfig\<close> tests it first.
\<close>

definition validateConnection :: "ConnectionParams \<Rightarrow> error option outcome" where
  "validateConnection connection =
     (if Uri connection \<noteq> [] then Returned None
      else if Host connection = [] then Returned (Some (ConfigError ''NO_HOST''))
      else if Port connection = 0 then Returned (Some (ConfigError ''NO_PORT''))
      else case GetAsNullableString_database connection of
             None \<Rightarrow> Panic ''invalid memory address or nil pointer dereference''
           | Some db \<Rightarrow> if db = [] then Returned (Some (ConfigError ''NO_DATABASE''))
                        else Returned None)"

fun validate_each :: "ConnectionParams list \<Rightarrow> error option outcome" where
  "validate_each [] = Returned None"
| "validate_each (connection # rest) =
     (case validateConnection connection of
        Panic msg \<Rightarrow> Panic msg
      | Returned (Some err) \<Rightarrow> Returned (Some err)
      | Returned None \<Rightarrow> validate_each rest)"

definition validateConnections :: "ConnectionParams list \<Rightarrow> error option outcome" where
  "validateConnections connections =
     (if connections = [] then Returned (Some (ConfigError ''NO_CONNECTION''))
      else validate_each connections)"

definition empty_ConnConfig :: ConnConfig where
  "empty_ConnConfig =
     \<lparr> cfg_Host = [], cfg_Port = 0, cfg_Database = [], cfg_User = [], cfg_Password = [] \<rparr>"

fun compose_connections ::
  "(string \<Rightarrow> error + ConnConfig) \<Rightarrow> ConnConfig \<times> error option \<Rightarrow> ConnectionParams list
     \<Rightarrow> ConnConfig \<times> error option" where
  "compose_connections ParseConfig (cfg, e) [] = (cfg, e)"
| "compose_connections ParseConfig (cfg, e) (connection # rest) =
     (let (cfg1, e1) =
            (if Uri connection \<noteq> []
             then (case ParseConfig (Uri connection) of
                     Inr parsed \<Rightarrow> (parsed, e)
                   | Inl err \<Rightarrow> (cfg, Some err))
             else (cfg, e));
          cfg2 = (if Host connection \<noteq> [] then cfg1\<lparr>cfg_Host := Host connection\<rparr> else cfg1);
          cfg3 = (if Port connection \<noteq> 0
                  then cfg2\<lparr>cfg_Port := word_of_int (Port connection)\<rparr> else cfg2);
          cfg4 = (case GetAsNullableString_database connection of
                    Some db \<Rightarrow> if db \<noteq> [] then cfg3\<lparr>cfg_Database := db\<rparr> else cfg3
                  | None \<Rightarrow> cfg3)
      in compose_connections ParseConfig (cfg4, e1) rest)"

definition composeConfig ::
  "(string \<Rightarrow> error + ConnConfig) \<Rightarrow> ConnectionParams list \<Rightarrow> CredentialParams option
     \<Rightarrow> ConnConfig \<times> error option" where
  "composeConfig ParseConfig connections credential =
     (let (cfg, e) = compose_connections ParseConfig (empty_ConnConfig, None) connections;
          cfg1 = (case credential of
                    None \<Rightarrow> cfg
                  | Some cred \<Rightarrow>
                      let cfg5 = (if Username cred \<noteq> [] then cfg\<lparr>cfg_User := Username cred\<rparr> else cfg)
                      in if Password cred \<noteq> [] then cfg5\<lparr>cfg_Password := Password cred\<rparr> else cfg5)
      in (cfg1, e))"

text \<open>
  \<open>Resolve\<close> runs the two lookups side by side and waits for both; neither reads what
  the other writes, so the model runs them one after the other. A panic in the
  validation ends the program, whatever the credential lookup does.
\<close>

definition Resolve ::
  "(string \<Rightarrow> error + ConnConfig) \<Rightarrow> error + ConnectionParams list
     \<Rightarrow> error + CredentialParams option \<Rightarrow> (ConnConfig option \<times> error option) outcome" where
  "Resolve ParseConfig ResolveAll Lookup =
     (let connections = (case ResolveAll of Inl err \<Rightarrow> [] | Inr cs \<Rightarrow> cs)
      in case (case ResolveAll of
                 Inl err \<Rightarrow> Returned (Some err)
               | Inr cs \<Rightarrow> validateConnections cs) of
           Panic msg \<Rightarrow> Panic msg
         | Returned errConn \<Rightarrow>
             (case errConn of
                Some err \<Rightarrow> Returned (None, Some err)
              | None \<Rightarrow>
                  (case Lookup of
                     Inl errCred \<Rightarrow> Returned (None, Some errCred)
                   | Inr credential \<Rightarrow>
                       (case composeConfig ParseConfig connections credential of
                          (cfg, e) \<Rightarrow> Returned (Some cfg, e)))))"

section \<open>Notions used in the statements\<close>



definition closed_without_handle :: "PostgresPersistence \<Rightarrow> bool" where
  "closed_without_handle c \<longleftrightarrow> (\<not> opened c \<longrightarrow> Client c = None)"

text \<open>
  An option of a configuration carries a value when its key is present with a non-empty
  string. A connection entry is complete when it has a uri, or a host, a port and a
  non-empty database.
\<close>

definition carried_value :: "ConfigParams \<Rightarrow> string \<Rightarrow> string option" where
  "carried_value cfg key =
     (case cfg key of None \<Rightarrow> None | Some v \<Rightarrow> if v = [] then None else Some v)"

definition database_missing :: "ConnectionParams \<Rightarrow> bool" where
  "database_missing e \<longleftrightarrow> database e = None \<or> database e = Some []"

definition complete_connection :: "ConnectionParams \<Rightarrow> bool" where
  "complete_connection e \<longleftrightarrow>
     Uri e \<noteq> [] \<or> (Host e \<noteq> [] \<and> Port e \<noteq> 0 \<and> \<not> database_missing e)"

section \<open>Sample inputs\<close>

text \<open>
  Concrete libraries, engines and database answers on which the operations are
  evaluated below. The sample library clones by identity, leaves ids alone, reads the id
  from the field \<open>Id\<close> and converts integer values to themselves. The sample engine
  stores into the table \<open>dummies\<close> and decodes a row to the slice of its values.
\<close>

definition sample_library :: library where
  "sample_library =
     \<lparr> ToLong = (\<lambda>v. case v of GInt n \<Rightarrow> n | _ \<Rightarrow> 0),
       Int63n_draw = (\<lambda>n. 0),
       CloneObject = (\<lambda>v. v),
       GenerateObjectId = (\<lambda>v. v),
       GetObjectId = (\<lambda>v. case convertToMap v of None \<Rightarrow> GNil | Some kvs \<Rightarrow> map_index kvs ''Id'') \<rparr>"

definition fresh_engine :: PostgresPersistence where
  "fresh_engine =
     NewPostgresPersistence (\<lambda>r. case r of Inl e \<Rightarrow> GNil | Inr vals \<Rightarrow> GSlice vals) GSlice ''dummies''"

definition sample_engine :: "pool \<Rightarrow> PostgresPersistence" where
  "sample_engine run = fresh_engine \<lparr> opened := True, Client := Some run \<rparr>"

definition sample_orders :: range_orders where
  "sample_orders = \<lparr> columns_order = (\<lambda>kvs. kvs), set_order = (\<lambda>kvs. kvs), values_order = rev \<rparr>"

definition ten_fields :: "(string \<times> gval) list" where
  "ten_fields =
     [(''A'', GInt 1), (''B'', GInt 2), (''C'', GInt 3), (''D'', GInt 4), (''E'', GInt 5),
      (''F'', GInt 6), (''G'', GInt 7), (''H'', GInt 8), (''I'', GInt 9), (''J'', GInt 10)]"

text \<open>A connection component whose \<open>Open\<close> fails.\<close>

definition refusing_collaborators :: collaborators where
  "refusing_collaborators =
     \<lparr> createConnection = \<lparr> IsOpen_conn = False, GetConnection = None, GetDatabaseName = [] \<rparr>,
       Open_conn = (\<lambda>conn. (Some (DriverError ''connection refused''), conn)),
       Close_conn = (\<lambda>conn. (None, conn)) \<rparr>"

text \<open>
  A database that holds ten rows, two of which satisfy \<open>"Key"=1\<close>; one that rejects
  a \<open>DELETE\<close> with an empty \<open>IN()\<close> list, as PostgreSQL does; one whose rows cannot
  be read; and one that counts zero rows.
\<close>

definition counting_pool :: pool where
  "counting_pool query params =
     (if query = ''SELECT * FROM \"dummies\" WHERE \"Key\"=1 LIMIT 100''
      then Inr (Rows [Inr [GStr ''1'', GInt 1], Inr [GStr ''2'', GInt 1]] None)
      else if query = ''SELECT COUNT(*) AS count FROM \"dummies\" WHERE \"Key\"=1''
      then Inr (Rows [Inr [GInt 2]] None)
      else if query = ''SELECT COUNT(*) AS count FROM \"dummies\"''
      then Inr (Rows [Inr [GInt 10]] None)
      else Inl (DriverError ''unexpected statement''))"

definition rejecting_pool :: pool where
  "rejecting_pool query params =
     (if query = ''DELETE FROM \"dummies\" WHERE \"Id\" IN()''
      then Inl (DriverError ''syntax error at or near \")\"'')
      else Inr (Rows [] None))"

definition undecodable_pool :: pool where
  "undecodable_pool query params = Inr (Rows [Inl (DriverError ''cannot read row values'')] None)"

text \<open>
  Connection entries: one with a uri, and three that lack one part each; a parser that
  returns the empty configuration for every uri, and a credential lookup that finds no
  credential.
\<close>

definition sample_ParseConfig :: "string \<Rightarrow> error + ConnConfig" where
  "sample_ParseConfig uri = Inr empty_ConnConfig"

definition no_credential :: "error + CredentialParams option" where
  "no_credential = Inr None"

definition uri_entry :: ConnectionParams where
  "uri_entry = \<lparr> Uri = ''postgres://localhost:5432/test'', Host = [], Port = 0, database = None \<rparr>"

definition no_host_entry :: ConnectionParams where
  "no_host_entry = \<lparr> Uri = [], Host = [], Port = 5432, database = Some ''test'' \<rparr>"

definition no_port_entry :: ConnectionParams where
  "no_port_entry = \<lparr> Uri = [], Host = ''localhost'', Port = 0, database = Some ''test'' \<rparr>"

definition no_database_entry :: ConnectionParams where
  "no_database_entry = \<lparr> Uri = [], Host = ''localhost'', Port = 5432, database = None \<rparr>"

definition zero_count_pool :: pool where
  "zero_count_pool query params = Inr (Rows [Inr [GInt 0]] None)"

definition zero_count_map_pool :: pool where
  "zero_count_map_pool query params = Inr (Rows [Inr [GMap [(''count'', GInt 0)]]] None)"

section \<open>Identifier quoting: results\<close>

lemma QuoteIdentifier_bare:
  "value \<noteq> [] \<Longrightarrow> hd value \<noteq> CHR 0x27 \<Longrightarrow> QuoteIdentifier value = ''\"'' @ value @ ''\"''"
  by (cases "value") (simp_all add: QuoteIdentifier_def)


text \<open>
  C6. The claim says that a string whose first character is a double quote is returned
  unchanged, so that quoting twice is quoting once. The source tests for the single
  quote instead: the already quoted identifier \<open>"abc"\<close> is wrapped a second time, and
  quoting \<open>abc\<close> twice differs from quoting it once.
\<close>

theorem QuoteIdentifier_requotes:
  "QuoteIdentifier ''\"abc\"'' = ''\"\"abc\"\"''
   \<and> QuoteIdentifier (QuoteIdentifier ''abc'') \<noteq> QuoteIdentifier ''abc''"
  by (simp add: QuoteIdentifier_def)

section \<open>Alignment of columns and values\<close>




















section \<open>Placeholders\<close>

text \<open>
  C2. The claim says that the placeholders are numbered in decimal, the tenth being
  \<open>$10\<close>. Every index is written with \<open>FormatInt(index, 16)\<close>: for ten fields the tenth
  placeholder is \<open>$a\<close>, in the parameter list and in the SET clause of both revisions.
\<close>

theorem tenth_placeholder_is_hexadecimal:
  "GenerateParameters (GStruct ten_fields) = ''$1,$2,$3,$4,$5,$6,$7,$8,$9,$a''
   \<and> generateParamString 10 = ''$1,$2,$3,$4,$5,$6,$7,$8,$9,$a''
   \<and> fst (GenerateSetParameters id (GStruct ten_fields))
       = ''\"A\"=$1,\"B\"=$2,\"C\"=$3,\"D\"=$4,\"E\"=$5,\"F\"=$6,\"G\"=$7,\"H\"=$8,\"I\"=$9,\"J\"=$a''
   \<and> GenerateSetParameters_refl id (GStruct ten_fields)
       = Returned ''\"A\"=$1,\"B\"=$2,\"C\"=$3,\"D\"=$4,\"E\"=$5,\"F\"=$6,\"G\"=$7,\"H\"=$8,\"I\"=$9,\"J\"=$a''"
  by code_simp

section \<open>Random sampling and paging\<close>

text \<open>
  C3. The claim says that \<open>GetOneRandom\<close> returns an absent result when the filter
  matches no row. The count query then answers with one row holding zero; both
  revisions go on to \<open>rand.Int63n(0)\<close>, which panics. This holds whether the row holds
  the number itself or a map with the key \<open>count\<close>.
\<close>

theorem GetOneRandom_zero_count_panics:
  "GetOneRandom lib (c\<lparr>Client := Some zero_count_pool\<rparr>) flt
     = Panic ''invalid argument to Int63n''
   \<and> GetOneRandom_refl lib (c\<lparr>Client := Some zero_count_pool\<rparr>) flt
     = Panic ''invalid argument to Int63n''
   \<and> GetOneRandom sample_library (c\<lparr>Client := Some zero_count_map_pool\<rparr>) flt
     = Panic ''invalid argument to Int63n''
   \<and> GetOneRandom_refl sample_library (c\<lparr>Client := Some zero_count_map_pool\<rparr>) flt
     = Panic ''invalid argument to Int63n''"
  by (simp add: GetOneRandom_def GetOneRandom_refl_def random_count_def Int63n_def
      sample_library_def map_index_def zero_count_pool_def zero_count_map_pool_def)

lemma sample_engine_fields:
  "TableName (sample_engine run) = ''dummies''" "MaxPageSize (sample_engine run) = 100"
  "Client (sample_engine run) = Some run"
  by (simp_all add: sample_engine_def fresh_engine_def NewPostgresPersistence_def)

text \<open>
  C4. The claim says that the counting statement carries the filter of the main
  statement. With the filter \<open>"Key"=1\<close> and no projection the main statement has the
  WHERE clause and the counting statement has none; with the projection \<open>"Id"\<close> the
  counting statement takes the projection as its predicate. On a table of ten rows of
  which two match, the page holds the two rows and the total is ten.
\<close>

theorem page_total_ignores_filter:
  "page_query (sample_engine run) (GStr ''\"Key\"=1'')
        \<lparr> Skip = None, Take = None, Total = True \<rparr> GNil GNil
     = ''SELECT * FROM \"dummies\" WHERE \"Key\"=1 LIMIT 100''
   \<and> page_count_query (sample_engine run) (GStr ''\"Key\"=1'') GNil
     = ''SELECT COUNT(*) AS count FROM \"dummies\"''
   \<and> page_count_query (sample_engine run) (GStr ''\"Key\"=1'') (GStr ''\"Id\"'')
     = ''SELECT COUNT(*) AS count FROM \"dummies\" WHERE \"Id\"''
   \<and> GetPageByFilter sample_library (sample_engine counting_pool) (GStr ''\"Key\"=1'')
        (Some \<lparr> Skip = None, Take = None, Total = True \<rparr>) GNil GNil
     = Returned (Some \<lparr> page_Total = Some 10,
                         page_Data = [GSlice [GStr ''1'', GInt 1], GSlice [GStr ''2'', GInt 1]] \<rparr>, None)
   \<and> GetPageByFilter_refl sample_library (sample_engine counting_pool) (GStr ''\"Key\"=1'')
        (Some \<lparr> Skip = None, Take = None, Total = True \<rparr>) GNil GNil
     = Returned (Some \<lparr> page_Total = Some 10,
                         page_Data = [GSlice [GStr ''1'', GInt 1], GSlice [GStr ''2'', GInt 1]] \<rparr>, None)"
  by code_simp

section \<open>Validation of connections\<close>

lemma validateConnection_returns:
  "validateConnection e =
     Returned (if Uri e \<noteq> [] then None
               else if Host e = [] then Some (ConfigError ''NO_HOST'')
               else if Port e = 0 then Some (ConfigError ''NO_PORT'')
               else if database_missing e then Some (ConfigError ''NO_DATABASE'')
               else None)"
  by (simp add: validateConnection_def GetAsNullableString_database_def database_missing_def
      split: option.splits)

lemma validateConnection_complete:
  "complete_connection e \<Longrightarrow> validateConnection e = Returned None"
  by (auto simp: validateConnection_returns complete_connection_def)

lemma validate_each_returns: "\<exists>r. validate_each cs = Returned r"
  by (induction cs) (auto simp: validateConnection_returns)

lemma validate_each_skips_complete:
  "\<forall>x \<in> set pre. complete_connection x \<Longrightarrow> validate_each (pre @ rest) = validate_each rest"
  by (induction pre) (simp_all add: validateConnection_complete)

lemma validateConnections_empty:
  "validateConnections [] = Returned (Some (ConfigError ''NO_CONNECTION''))"
  by (simp add: validateConnections_def)

lemma Resolve_returns: "\<exists>r. Resolve ParseConfig ResolveAll Lookup = Returned r"
proof (cases ResolveAll)
  case (Inl err)
  then show ?thesis by (simp add: Resolve_def)
next
  case (Inr cs)
  have "\<exists>r. validateConnections cs = Returned r"
    using validate_each_returns [of cs] by (simp add: validateConnections_def)
  then obtain r where "validateConnections cs = Returned r" ..
  with Inr show ?thesis
    by (simp add: Resolve_def split: option.splits sum.splits prod.splits)
qed

lemma Resolve_first_incomplete:
  assumes "\<forall>x \<in> set pre. complete_connection x"
    and "validateConnection e = Returned (Some err)"
  shows "Resolve ParseConfig (Inr (pre @ e # post)) Lookup = Returned (None, Some err)"
proof -
  have "validate_each (pre @ e # post) = Returned (Some err)"
    using assms by (simp add: validate_each_skips_complete)
  then show ?thesis by (simp add: Resolve_def validateConnections_def)
qed

text \<open>
  C5. \<open>Resolve\<close> never panics, whatever the lookups return. With an empty list of
  connections it returns the configuration error \<open>NO_CONNECTION\<close>. When the entries
  before \<open>e\<close> are complete and \<open>e\<close> has no uri, it returns the configuration error
  \<open>NO_HOST\<close> if the host of \<open>e\<close> is empty, \<open>NO_PORT\<close> if it has a host and its port is
  zero, and \<open>NO_DATABASE\<close> if it has a host and a port and its database parameter is
  empty or absent.
\<close>

theorem Resolve_validation_errors:
  "(\<exists>r. Resolve ParseConfig ResolveAll Lookup = Returned r)
   \<and> Resolve ParseConfig (Inr []) Lookup = Returned (None, Some (ConfigError ''NO_CONNECTION''))
   \<and> ((\<forall>x \<in> set pre. complete_connection x) \<and> Uri e = [] \<and> Host e = [] \<longrightarrow>
        Resolve ParseConfig (Inr (pre @ e # post)) Lookup
          = Returned (None, Some (ConfigError ''NO_HOST'')))
   \<and> ((\<forall>x \<in> set pre. complete_connection x) \<and> Uri e = [] \<and> Host e \<noteq> [] \<and> Port e = 0 \<longrightarrow>
        Resolve ParseConfig (Inr (pre @ e # post)) Lookup
          = Returned (None, Some (ConfigError ''NO_PORT'')))
   \<and> ((\<forall>x \<in> set pre. complete_connection x) \<and> Uri e = [] \<and> Host e \<noteq> [] \<and> Port e \<noteq> 0
          \<and> database_missing e \<longrightarrow>
        Resolve ParseConfig (Inr (pre @ e # post)) Lookup
          = Returned (None, Some (ConfigError ''NO_DATABASE'')))"
proof (intro conjI impI)
  show "\<exists>r. Resolve ParseConfig ResolveAll Lookup = Returned r" by (rule Resolve_returns)
  show "Resolve ParseConfig (Inr []) Lookup = Returned (None, Some (ConfigError ''NO_CONNECTION''))"
    by (simp add: Resolve_def validateConnections_empty)
next
  assume "(\<forall>x \<in> set pre. complete_connection x) \<and> Uri e = [] \<and> Host e = []"
  then show "Resolve ParseConfig (Inr (pre @ e # post)) Lookup
      = Returned (None, Some (ConfigError ''NO_HOST''))"
    by (intro Resolve_first_incomplete) (simp_all add: validateConnection_returns)
next
  assume "(\<forall>x \<in> set pre. complete_connection x) \<and> Uri e = [] \<and> Host e \<noteq> [] \<and> Port e = 0"
  then show "Resolve ParseConfig (Inr (pre @ e # post)) Lookup
      = Returned (None, Some (ConfigError ''NO_PORT''))"
    by (intro Resolve_first_incomplete) (simp_all add: validateConnection_returns)
next
  assume "(\<forall>x \<in> set pre. complete_connection x) \<and> Uri e = [] \<and> Host e \<noteq> [] \<and> Port e \<noteq> 0
      \<and> database_missing e"
  then show "Resolve ParseConfig (Inr (pre @ e # post)) Lookup
      = Returned (None, Some (ConfigError ''NO_DATABASE''))"
    by (intro Resolve_first_incomplete) (simp_all add: validateConnection_returns)
qed

text \<open>
  The theorem at lists that start with a complete entry and go on with an entry
  without host, without port, and without database parameter.
\<close>

theorem Resolve_validation_errors_witness:
  "complete_connection uri_entry
   \<and> Resolve sample_ParseConfig (Inr [uri_entry, no_host_entry]) no_credential
       = Returned (None, Some (ConfigError ''NO_HOST''))
   \<and> Resolve sample_ParseConfig (Inr [uri_entry, no_port_entry]) no_credential
       = Returned (None, Some (ConfigError ''NO_PORT''))
   \<and> database_missing no_database_entry
   \<and> Resolve sample_ParseConfig (Inr [uri_entry, no_database_entry]) no_credential
       = Returned (None, Some (ConfigError ''NO_DATABASE''))"
proof -
  have complete: "complete_connection uri_entry"
    by (simp add: complete_connection_def uri_entry_def)
  have missing: "database_missing no_database_entry"
    by (simp add: database_missing_def no_database_entry_def)
  have "Resolve sample_ParseConfig (Inr ([uri_entry] @ no_host_entry # [])) no_credential
      = Returned (None, Some (ConfigError ''NO_HOST''))"
    using Resolve_validation_errors
      [where pre = "[uri_entry]" and e = no_host_entry and post = "[]"
         and ParseConfig = sample_ParseConfig and Lookup = no_credential and ResolveAll = "Inr []"]
      complete
    by (simp add: no_host_entry_def)
  moreover have "Resolve sample_ParseConfig (Inr ([uri_entry] @ no_port_entry # [])) no_credential
      = Returned (None, Some (ConfigError ''NO_PORT''))"
    using Resolve_validation_errors
      [where pre = "[uri_entry]" and e = no_port_entry and post = "[]"
         and ParseConfig = sample_ParseConfig and Lookup = no_credential and ResolveAll = "Inr []"]
      complete
    by (simp add: no_port_entry_def)
  moreover have "Resolve sample_ParseConfig (Inr ([uri_entry] @ no_database_entry # [])) no_credential
      = Returned (None, Some (ConfigError ''NO_DATABASE''))"
    using Resolve_validation_errors
      [where pre = "[uri_entry]" and e = no_database_entry and post = "[]"
         and ParseConfig = sample_ParseConfig and Lookup = no_credential and ResolveAll = "Inr []"]
      complete missing
    by (simp add: no_database_entry_def)
  ultimately show ?thesis using complete missing by simp
qed

section \<open>Operations on records with an id\<close>

lemma generateParamString_0: "generateParamString 0 = []"
  by (simp add: generateParamString_def)

text \<open>
  The claim C7 fails on two of its inputs: \<open>UpdatePartially\<close> with an id and nil
  partial data panics, and \<open>DeleteByIds\<close> with no ids sends a \<open>DELETE\<close> whose \<open>IN()\<close>
  list is empty and returns the error of the database that rejects it.
\<close>

theorem empty_inputs_counterexample:
  "Identifiable_UpdatePartially sample_orders (sample_engine rejecting_pool) (GStr ''1'') None
     = Panic ''invalid memory address or nil pointer dereference''
   \<and> Identifiable_DeleteByIds (sample_engine rejecting_pool) []
     = Returned (Some (DriverError ''syntax error at or near \")\"''))"
  by code_simp

text \<open>
  C7, amended. \<open>Create\<close>, \<open>Set\<close> and \<open>Update\<close> with a nil item and \<open>UpdatePartially\<close>
  with a nil id return the nil item and no error, without reaching the database.
  \<open>DeleteByIds\<close> with no ids sends one statement, the \<open>DELETE\<close> with the empty \<open>IN()\<close>
  list and no parameters, and returns what the database answers: its error, the error
  of reading the first row, or nil.
\<close>

theorem nil_inputs_return_absent:
  "Identifiable_Create lib ro c GNil = Returned (Item GNil, None)
   \<and> Identifiable_Set lib ro c GNil = Returned (Item GNil, None)
   \<and> Identifiable_Update lib ro c GNil = Returned (Item GNil, None)
   \<and> Identifiable_UpdatePartially ro c GNil data = Returned (Item GNil, None)
   \<and> Identifiable_DeleteByIds (c\<lparr>Client := Some run\<rparr>) []
       = (case run (''DELETE FROM '' @ QuoteIdentifier (TableName c) @ '' WHERE \"Id\" IN()'') [] of
            Inl qErr \<Rightarrow> Returned (Some qErr)
          | Inr (Rows rs rerr) \<Rightarrow>
              (case rs of Inl vErr # rest \<Rightarrow> Returned (Some vErr) | _ \<Rightarrow> Returned None))"
  by (simp add: Identifiable_Create_def Identifiable_Set_def Identifiable_Update_def
      Identifiable_UpdatePartially_def Identifiable_DeleteByIds_def GenerateParameters_refl_def
      generateParamString_0 delete_by_ids_query_def
      split: sum.splits rows.splits list.splits)

text \<open>
  C8. The claim says that a failing operation returns a nil item and the error. When
  the statement succeeds and the values of the returned row cannot be read, \<open>Update\<close>,
  \<open>UpdatePartially\<close> and \<open>DeleteById\<close> return the error in the item slot and a nil
  error; \<open>GetOneById\<close> returns it as the error, as the claim says.
\<close>

theorem Values_error_lands_in_item_slot:
  "Identifiable_Update sample_library sample_orders (sample_engine undecodable_pool)
       (GStruct [(''Id'', GStr ''1''), (''Key'', GStr ''Key 1'')])
     = Returned (ErrorValue (DriverError ''cannot read row values''), None)
   \<and> Identifiable_UpdatePartially sample_orders (sample_engine undecodable_pool) (GStr ''1'')
       (Some [(''Key'', GStr ''Key 2'')])
     = Returned (ErrorValue (DriverError ''cannot read row values''), None)
   \<and> Identifiable_DeleteById (sample_engine undecodable_pool) (GStr ''1'')
     = Returned (ErrorValue (DriverError ''cannot read row values''), None)
   \<and> Identifiable_GetOneById (sample_engine undecodable_pool) (GStr ''1'')
     = Returned (Item GNil, Some (DriverError ''cannot read row values''))"
  by code_simp

section \<open>Lifecycle and configuration\<close>

lemma Open_when_opened: "opened c \<Longrightarrow> Open ext c = Returned (c, None)"
  by (simp add: Open_def)

lemma Open_error_closed:
  assumes "Open ext c = Returned (c', Some e)"
  shows "\<not> opened c' \<and> (Client c' = None \<or> Client c' = Client c)"
  using assms
  by (auto simp: Open_def Let_def split: if_splits option.splits prod.splits outcome.splits)

lemma Open_error_was_closed:
  assumes "Open ext c = Returned (c', Some e)"
  shows "\<not> opened c"
  using assms by (auto simp: Open_def)

text \<open>
  An engine is closed without a handle when it comes from the constructor, and stays so
  under \<open>Configure\<close>, \<open>Open\<close> and \<open>Close\<close>.
\<close>

lemma New_closed_without_handle:
  "closed_without_handle (NewPostgresPersistence toPublic proto tableName)"
  by (simp add: closed_without_handle_def NewPostgresPersistence_def)

lemma Configure_keeps_closed_without_handle:
  "closed_without_handle c \<Longrightarrow> closed_without_handle (Configure toInteger c cfg)"
  by (simp add: closed_without_handle_def Configure_def Let_def)

lemma Open_keeps_closed_without_handle:
  assumes "closed_without_handle c" and "Open ext c = Returned (c', r)"
  shows "closed_without_handle c'"
  using assms
  by (auto simp: closed_without_handle_def Open_def Let_def
      split: if_splits option.splits prod.splits outcome.splits)

lemma Close_keeps_closed_without_handle:
  assumes "closed_without_handle c" and "Close ext c = (c', r)"
  shows "closed_without_handle c'"
  using assms
  by (auto simp: closed_without_handle_def Close_def Let_def
      split: if_splits option.splits prod.splits)

text \<open>
  C9. \<open>Open\<close> on an open engine returns nil and the engine as it was. Whenever \<open>Open\<close>
  returns an error, the engine it leaves is closed: \<open>IsOpen\<close> is false, and it holds no
  pool handle, provided it held none while closed before the call (as every engine does
  that comes from the constructor through \<open>Configure\<close>, \<open>Open\<close> and \<open>Close\<close>).
\<close>

theorem Open_idempotent_and_closed_on_error:
  "(opened c \<longrightarrow> Open ext c = Returned (c, None))
   \<and> (\<forall>c' e. Open ext c = Returned (c', Some e) \<longrightarrow>
          \<not> IsOpen c' \<and> (closed_without_handle c \<longrightarrow> Client c' = None))"
proof (intro conjI allI impI)
  assume "opened c"
  then show "Open ext c = Returned (c, None)" by (rule Open_when_opened)
next
  fix c' e
  assume failed: "Open ext c = Returned (c', Some e)"
  then show "\<not> IsOpen c'" using Open_error_closed by (simp add: IsOpen_def)
  assume "closed_without_handle c"
  moreover from failed have "\<not> opened c" by (rule Open_error_was_closed)
  ultimately have "Client c = None" by (simp add: closed_without_handle_def)
  with Open_error_closed [OF failed] show "Client c' = None" by auto
qed

text \<open>
  The theorem at an open engine, and at a fresh engine whose connection refuses to
  open.
\<close>

theorem Open_idempotent_and_closed_on_error_witness:
  "closed_without_handle fresh_engine
   \<and> closed_without_handle (sample_engine undecodable_pool)
   \<and> opened (sample_engine undecodable_pool)
   \<and> Open refusing_collaborators (sample_engine undecodable_pool)
       = Returned (sample_engine undecodable_pool, None)
   \<and> Open refusing_collaborators fresh_engine
       = Returned (fresh_engine\<lparr>Connection := Some (createConnection refusing_collaborators),
                                localConnection := True\<rparr>,
                   Some (DriverError ''connection refused''))
   \<and> \<not> IsOpen (fresh_engine\<lparr>Connection := Some (createConnection refusing_collaborators),
                               localConnection := True\<rparr>)
   \<and> Client (fresh_engine\<lparr>Connection := Some (createConnection refusing_collaborators),
                           localConnection := True\<rparr>) = None"
proof -
  have fresh: "closed_without_handle fresh_engine"
    by (simp add: closed_without_handle_def fresh_engine_def NewPostgresPersistence_def)
  have sample: "closed_without_handle (sample_engine undecodable_pool)"
    by (simp add: closed_without_handle_def sample_engine_def)
  have is_open: "opened (sample_engine undecodable_pool)"
    by (simp add: sample_engine_def)
  have fails: "Open refusing_collaborators fresh_engine
       = Returned (fresh_engine\<lparr>Connection := Some (createConnection refusing_collaborators),
                                localConnection := True\<rparr>,
                   Some (DriverError ''connection refused''))"
    by (simp add: Open_def fresh_engine_def NewPostgresPersistence_def refusing_collaborators_def)
  from Open_idempotent_and_closed_on_error
    [of "sample_engine undecodable_pool" refusing_collaborators] is_open
  have "Open refusing_collaborators (sample_engine undecodable_pool)
       = Returned (sample_engine undecodable_pool, None)" by simp
  moreover from Open_idempotent_and_closed_on_error [of fresh_engine refusing_collaborators]
    fails fresh
  have "\<not> IsOpen (fresh_engine\<lparr>Connection := Some (createConnection refusing_collaborators),
                               localConnection := True\<rparr>)
        \<and> Client (fresh_engine\<lparr>Connection := Some (createConnection refusing_collaborators),
                           localConnection := True\<rparr>) = None" by blast
  ultimately show ?thesis using fresh sample is_open fails by simp
qed

lemma defaultConfig_no_table:
  "defaultConfig ''table'' = None" "defaultConfig ''collection'' = Some []"
  by (simp_all add: defaultConfig_def)

text \<open>
  C10. After \<open>Configure\<close> the table name is the value of \<open>table\<close> when that option
  carries one, whether or not \<open>collection\<close> does; otherwise the value of \<open>collection\<close>
  when that carries one; otherwise the table name the engine had.
\<close>

theorem Configure_table_overrides_collection:
  "TableName (Configure toInteger c cfg) =
     (case carried_value cfg ''table'' of
        Some t \<Rightarrow> t
      | None \<Rightarrow> (case carried_value cfg ''collection'' of Some n \<Rightarrow> n | None \<Rightarrow> TableName c))"
  by (simp add: Configure_def Let_def SetDefaults_def GetAsStringWithDefault_def
      carried_value_def map_add_def defaultConfig_no_table split: option.splits)

end
